theory Spec2Isabelle
  imports Complex_Main
begin

section \<open>Values, dictionaries and data frames\<close>

text \<open>
  The cells of a pandas DataFrame, as the validator and the loader meet them: Python's
  \<open>None\<close>, the float \<open>nan\<close>, pandas' \<open>NaT\<close>, strings, integers, finite floats,
  booleans and timestamps. A finite float is modelled by the rational it denotes; strings are
  ASCII.
\<close>

datatype pyval =
    PNone
  | PNaN
  | PNaT
  | PStr string
  | PInt int
  | PFloat rat
  | PBool bool
  | PDatetime int

text \<open>A Python \<open>dict\<close> with string keys: an association list in insertion order.\<close>

type_synonym pydict = "(string \<times> pyval) list"

text \<open>\<open>d[k] = v\<close>: an existing key keeps its position, a new key goes last.\<close>

fun dict_set :: "pydict \<Rightarrow> string \<Rightarrow> pyval \<Rightarrow> pydict" where
  "dict_set [] k v = [(k, v)]"
| "dict_set ((k', v') # d) k v =
     (if k' = k then (k, v) # d else (k', v') # dict_set d k v)"

text \<open>\<open>d.update(other)\<close>.\<close>

fun dict_update :: "pydict \<Rightarrow> pydict \<Rightarrow> pydict" where
  "dict_update d [] = d"
| "dict_update d ((k, v) # other) = dict_update (dict_set d k v) other"

text \<open>
  A DataFrame: its ordered column labels and its rows of cells, under the default
  \<open>RangeIndex\<close> (row \<open>i\<close> has index label \<open>i\<close>). The cells are kept as Python values.
  pandas stores a column under one dtype and may change the representation of a cell on the
  way in or out (an integer beside floats becomes a float, \<open>None\<close> in a numeric column
  becomes \<open>nan\<close>); these changes of representation are not modelled. Where a statement
  below is about values that pandas may convert, as for the metadata columns, it is made on
  the row dicts that \<open>validate\<close> builds, not on the cells of the frame built from them.
\<close>

record dataframe =
  df_columns :: "string list"
  df_values :: "pyval list list"

text \<open>\<open>len(df)\<close>, and \<open>df.empty\<close>: true when either axis has length 0.\<close>

definition df_len :: "dataframe \<Rightarrow> nat" where
  "df_len df = length (df_values df)"

definition df_empty :: "dataframe \<Rightarrow> bool" where
  "df_empty df = (df_values df = [] \<or> df_columns df = [])"

text \<open>\<open>row.to_dict()\<close> for a row of \<open>df\<close>: a repeated column label keeps its last cell.\<close>

definition to_dict :: "dataframe \<Rightarrow> pyval list \<Rightarrow> pydict" where
  "to_dict df cells = dict_update [] (zip (df_columns df) cells)"

text \<open>
  \<open>df.iterrows()\<close>: the pairs of index label and row, in order. The row is taken with the
  cells as they are in the frame; the common dtype that pandas gives the row's \<open>Series\<close> is
  not modelled.
\<close>

definition iterrows :: "dataframe \<Rightarrow> (nat \<times> pydict) list" where
  "iterrows df = zip [0..<length (df_values df)] (map (to_dict df) (df_values df))"

text \<open>
  \<open>pd.DataFrame(records)\<close> for a list of dicts: the columns are the keys in order of first
  appearance, and a record without a key gets \<open>nan\<close> in that column. The cells are the
  values of the records as given, without the dtype inference of pandas.
\<close>

definition first_seen :: "string list \<Rightarrow> string list" where
  "first_seen ks = rev (remdups (rev ks))"

definition DataFrame :: "pydict list \<Rightarrow> dataframe" where
  "DataFrame records =
     (let cols = first_seen (concat (map (map fst) records))
      in \<lparr>df_columns = cols,
          df_values = map (\<lambda>r. map (\<lambda>c. case map_of r c of Some v \<Rightarrow> v | None \<Rightarrow> PNaN) cols)
                        records\<rparr>)"

text \<open>\<open>pd.isna(v)\<close> on a scalar.\<close>

fun isna :: "pyval \<Rightarrow> bool" where
  "isna PNone = True"
| "isna PNaN = True"
| "isna PNaT = True"
| "isna _ = False"

section \<open>The record schemas\<close>

text \<open>
  One entry of \<open>ValidationError.errors()\<close>: the error type, the field it is located at and
  the offending input (the whole keyword dict for a missing field).
\<close>

datatype err_input = InputValue pyval | InputData pydict

datatype verr = VErr string string err_input

text \<open>
  What the validation library does beyond the exact types: its lax conversions into a float,
  an integer and a timestamp (numeric strings, booleans, unix times, ...), consulted only for
  a non-null input that is not already of the field's type and answering with the converted
  value or with the error type, and its rendering of an error list as text. They are
  parameters of the model: every theorem holds whatever they are.
\<close>

record runtime =
  lax_float :: "pyval \<Rightarrow> string + rat"
  lax_int :: "pyval \<Rightarrow> string + int"
  lax_datetime :: "pyval \<Rightarrow> string + int"
  str_errors :: "verr list \<Rightarrow> string"

datatype ftype = StrT | FloatT | IntT | OptDatetimeT

datatype regex = EmailRe | StatusRe

datatype constraint = MinLength nat | Pattern regex | Gt rat | Ge rat

datatype after_validator = NoValidator | StrValidator "string \<Rightarrow> string" | FloatValidator "rat \<Rightarrow> rat"

record field =
  fname :: string
  ftype :: ftype
  fdefault :: "pyval option"
  constraints :: "constraint list"
  after :: after_validator

subsection \<open>Patterns\<close>

definition is_word :: "char \<Rightarrow> bool" where
  "is_word c = (let n = (of_char c :: nat)
                in (48 \<le> n \<and> n \<le> 57) \<or> (65 \<le> n \<and> n \<le> 90) \<or> (97 \<le> n \<and> n \<le> 122) \<or> n = 95)"

definition is_addr :: "char \<Rightarrow> bool" where
  "is_addr c = (is_word c \<or> c = CHR ''.'' \<or> c = CHR ''-'')"

text \<open>
  \<open>^[\w\.-]+@[\w\.-]+\.\w+$\<close>: a non-empty local part, one \<open>@\<close>, and a domain whose part
  after its last dot is a non-empty word and whose part before it is non-empty.
\<close>

definition email_match :: "string \<Rightarrow> bool" where
  "email_match s =
     (let lpart = takeWhile (\<lambda>c. c \<noteq> CHR ''@'') s;
          rest = dropWhile (\<lambda>c. c \<noteq> CHR ''@'') s
      in lpart \<noteq> [] \<and> list_all is_addr lpart \<and>
         (case rest of
            [] \<Rightarrow> False
          | _ # dpart \<Rightarrow>
              (let tld = takeWhile (\<lambda>c. c \<noteq> CHR ''.'') (rev dpart);
                   host = dropWhile (\<lambda>c. c \<noteq> CHR ''.'') (rev dpart)
               in list_all is_addr dpart \<and> tld \<noteq> [] \<and> list_all is_word tld \<and>
                  length host \<ge> 2)))"

text \<open>\<open>^(pending|completed|shipped|cancelled)$\<close>.\<close>

definition status_match :: "string \<Rightarrow> bool" where
  "status_match s = (s \<in> set [''pending'', ''completed'', ''shipped'', ''cancelled''])"

fun re_match :: "regex \<Rightarrow> string \<Rightarrow> bool" where
  "re_match EmailRe s = email_match s"
| "re_match StatusRe s = status_match s"

subsection \<open>Normalisers\<close>

definition lower_char :: "char \<Rightarrow> char" where
  "lower_char c = (let n = (of_char c :: nat) in if 65 \<le> n \<and> n \<le> 90 then char_of (n + 32) else c)"

text \<open>\<open>CustomerRecord.lowercase_email\<close>: \<open>v.lower()\<close>.\<close>

definition lowercase_email :: "string \<Rightarrow> string" where
  "lowercase_email v = map lower_char v"

text \<open>Rounding to the nearest integer, a tie going to the even neighbour.\<close>

definition round_half_even :: "rat \<Rightarrow> int" where
  "round_half_even y =
     (let f = \<lfloor>y\<rfloor>; d = y - of_int f
      in if d < 1 / 2 then f else if 1 / 2 < d then f + 1 else if even f then f else f + 1)"

text \<open>
  \<open>ProductRecord.round_decimal\<close>: \<open>round(v, 2)\<close>, on the rational that the float
  denotes. Python rounds the binary float, so the two can differ where the decimal numeral
  of a float is a tie at the third place (\<open>round(2.675, 2)\<close> is 2.67 in Python); away from
  such ties they agree.
\<close>

definition round_decimal :: "rat \<Rightarrow> rat" where
  "round_decimal v = of_int (round_half_even (v * 100)) / 100"

subsection \<open>The three model classes\<close>

definition CustomerRecord :: "field list" where
  "CustomerRecord =
     [\<lparr>fname = ''customer_id'', ftype = StrT, fdefault = None, constraints = [MinLength 1], after = NoValidator\<rparr>,
      \<lparr>fname = ''first_name'', ftype = StrT, fdefault = None, constraints = [MinLength 1], after = NoValidator\<rparr>,
      \<lparr>fname = ''last_name'', ftype = StrT, fdefault = None, constraints = [MinLength 1], after = NoValidator\<rparr>,
      \<lparr>fname = ''email'', ftype = StrT, fdefault = None, constraints = [Pattern EmailRe],
        after = StrValidator lowercase_email\<rparr>,
      \<lparr>fname = ''country'', ftype = StrT, fdefault = None, constraints = [MinLength 2], after = NoValidator\<rparr>,
      \<lparr>fname = ''created_at'', ftype = OptDatetimeT, fdefault = Some PNone, constraints = [], after = NoValidator\<rparr>]"

definition ProductRecord :: "field list" where
  "ProductRecord =
     [\<lparr>fname = ''product_id'', ftype = StrT, fdefault = None, constraints = [MinLength 1], after = NoValidator\<rparr>,
      \<lparr>fname = ''product_name'', ftype = StrT, fdefault = None, constraints = [MinLength 1], after = NoValidator\<rparr>,
      \<lparr>fname = ''category'', ftype = StrT, fdefault = None, constraints = [MinLength 1], after = NoValidator\<rparr>,
      \<lparr>fname = ''price'', ftype = FloatT, fdefault = None, constraints = [Gt 0],
        after = FloatValidator round_decimal\<rparr>,
      \<lparr>fname = ''cost'', ftype = FloatT, fdefault = None, constraints = [Ge 0],
        after = FloatValidator round_decimal\<rparr>]"

definition OrderRecord :: "field list" where
  "OrderRecord =
     [\<lparr>fname = ''order_id'', ftype = StrT, fdefault = None, constraints = [MinLength 1], after = NoValidator\<rparr>,
      \<lparr>fname = ''customer_id'', ftype = StrT, fdefault = None, constraints = [MinLength 1], after = NoValidator\<rparr>,
      \<lparr>fname = ''product_id'', ftype = StrT, fdefault = None, constraints = [MinLength 1], after = NoValidator\<rparr>,
      \<lparr>fname = ''quantity'', ftype = IntT, fdefault = None, constraints = [Gt 0], after = NoValidator\<rparr>,
      \<lparr>fname = ''order_date'', ftype = OptDatetimeT, fdefault = Some PNone, constraints = [], after = NoValidator\<rparr>,
      \<lparr>fname = ''status'', ftype = StrT, fdefault = None, constraints = [Pattern StatusRe], after = NoValidator\<rparr>]"

subsection \<open>Validating one field and one record\<close>

text \<open>
  The type check of a field: a value of the field's own type is taken as it is, null is
  accepted by the optional timestamp only, and any other value goes through the lax
  conversion. The result is the error type or the value in the field's type.
\<close>

fun coerce :: "runtime \<Rightarrow> ftype \<Rightarrow> pyval \<Rightarrow> string + pyval" where
  "coerce rt StrT (PStr s) = Inr (PStr s)"
| "coerce rt StrT v = Inl ''string_type''"
| "coerce rt FloatT (PFloat x) = Inr (PFloat x)"
| "coerce rt FloatT PNone = Inl ''float_type''"
| "coerce rt FloatT v = (case lax_float rt v of Inr x \<Rightarrow> Inr (PFloat x) | Inl e \<Rightarrow> Inl e)"
| "coerce rt IntT (PInt i) = Inr (PInt i)"
| "coerce rt IntT PNone = Inl ''int_type''"
| "coerce rt IntT v = (case lax_int rt v of Inr i \<Rightarrow> Inr (PInt i) | Inl e \<Rightarrow> Inl e)"
| "coerce rt OptDatetimeT PNone = Inr PNone"
| "coerce rt OptDatetimeT (PDatetime t) = Inr (PDatetime t)"
| "coerce rt OptDatetimeT v =
     (case lax_datetime rt v of Inr t \<Rightarrow> Inr (PDatetime t) | Inl e \<Rightarrow> Inl e)"

text \<open>One declared constraint on a value of the field's type: the error type when it fails.\<close>

fun violates :: "constraint \<Rightarrow> pyval \<Rightarrow> string option" where
  "violates (MinLength n) (PStr s) = (if length s < n then Some ''string_too_short'' else None)"
| "violates (Pattern r) (PStr s) = (if re_match r s then None else Some ''string_pattern_mismatch'')"
| "violates (Gt b) (PFloat x) = (if b < x then None else Some ''greater_than'')"
| "violates (Gt b) (PInt i) = (if b < of_int i then None else Some ''greater_than'')"
| "violates (Ge b) (PFloat x) = (if b \<le> x then None else Some ''greater_than_equal'')"
| "violates (Ge b) (PInt i) = (if b \<le> of_int i then None else Some ''greater_than_equal'')"
| "violates c v = None"

text \<open>The constraints in declaration order; the first failure stops the field's checking.\<close>

fun first_violation :: "constraint list \<Rightarrow> pyval \<Rightarrow> string option" where
  "first_violation [] v = None"
| "first_violation (c # cs) v =
     (case violates c v of Some e \<Rightarrow> Some e | None \<Rightarrow> first_violation cs v)"

text \<open>The field validator, run after the type and the constraints passed.\<close>

fun apply_after :: "after_validator \<Rightarrow> pyval \<Rightarrow> pyval" where
  "apply_after (StrValidator f) (PStr s) = PStr (f s)"
| "apply_after (FloatValidator f) (PFloat x) = PFloat (f x)"
| "apply_after a v = v"

definition validate_field :: "runtime \<Rightarrow> field \<Rightarrow> pyval \<Rightarrow> verr + pyval" where
  "validate_field rt f v =
     (case coerce rt (ftype f) v of
        Inl e \<Rightarrow> Inl (VErr e (fname f) (InputValue v))
      | Inr w \<Rightarrow>
          (case first_violation (constraints f) w of
             Some e \<Rightarrow> Inl (VErr e (fname f) (InputValue v))
           | None \<Rightarrow> Inr (apply_after (after f) w)))"

text \<open>
  A field of the keyword dict: an absent key takes the declared default as it is, or is
  reported missing when the field has none.
\<close>

definition field_result :: "runtime \<Rightarrow> pydict \<Rightarrow> field \<Rightarrow> verr + pyval" where
  "field_result rt d f =
     (case map_of d (fname f) of
        None \<Rightarrow> (case fdefault f of
                   Some dv \<Rightarrow> Inr dv
                 | None \<Rightarrow> Inl (VErr ''missing'' (fname f) (InputData d)))
      | Some v \<Rightarrow> validate_field rt f v)"

fun lefts :: "('a + 'b) list \<Rightarrow> 'a list" where
  "lefts [] = []"
| "lefts (Inl a # xs) = a # lefts xs"
| "lefts (Inr b # xs) = lefts xs"

fun rights :: "('a + 'b) list \<Rightarrow> 'b list" where
  "rights [] = []"
| "rights (Inl a # xs) = rights xs"
| "rights (Inr b # xs) = b # rights xs"

text \<open>
  \<open>schema(**row_dict)\<close> followed by \<open>model_dump()\<close>: every field is checked on its own, in
  declaration order; the errors of all failing fields are collected into the
  \<open>ValidationError\<close>, and a record without errors dumps its fields in declaration order.
  Keys that are not fields are ignored.
\<close>

definition validate_model :: "runtime \<Rightarrow> field list \<Rightarrow> pydict \<Rightarrow> verr list + pydict" where
  "validate_model rt fs d =
     (let rs = map (field_result rt d) fs
      in if lefts rs = [] then Inr (zip (map fname fs) (rights rs)) else Inl (lefts rs))"

section \<open>The schema validator\<close>

text \<open>
  The exceptions \<open>SchemaValidator\<close> raises, all of them \<open>ValueError\<close>:
  \<open>Invalid mode: {mode}\<close>, \<open>Unknown schema: {schema_name}\<close> and
  \<open>Validation failed: {e}\<close>, the last one formatted from the \<open>ValidationError\<close> of the
  offending row.
\<close>

datatype exc = InvalidMode string | UnknownSchema string | ValidationFailed "verr list"

record validator =
  mode :: string

text \<open>\<open>SchemaValidator.__init__\<close>.\<close>

definition SchemaValidator :: "string \<Rightarrow> exc + validator" where
  "SchemaValidator m =
     (if m \<notin> set [''strict'', ''filter'', ''flag''] then Inl (InvalidMode m)
      else Inr \<lparr>mode = m\<rparr>)"

text \<open>\<open>SchemaValidator.SCHEMAS\<close>.\<close>

definition SCHEMAS :: "(string \<times> field list) list" where
  "SCHEMAS = [(''customers'', CustomerRecord), (''products'', ProductRecord), (''orders'', OrderRecord)]"

definition startswith :: "string \<Rightarrow> string \<Rightarrow> bool" where
  "startswith k p = (take (length p) k = p)"

text \<open>
  The dict comprehension of \<open>validate\<close>: metadata columns are skipped, and a value that
  \<open>pd.isna\<close> flags becomes \<open>None\<close>.
\<close>

definition row_dict :: "pydict \<Rightarrow> pydict" where
  "row_dict row =
     map (\<lambda>(k, v). (k, if isna v then PNone else v))
         (filter (\<lambda>(k, v). \<not> startswith k ''_'') row)"

record error_info =
  row_index :: nat
  errors :: "verr list"
  data :: pydict

text \<open>
  The loop of \<open>validate\<close> over \<open>df.iterrows()\<close>, with the two lists it appends to. The
  model class is an argument: it maps the keyword dict to the dumped record or to the
  errors of the \<open>ValidationError\<close>.
\<close>

fun validate_rows ::
  "string \<Rightarrow> (verr list \<Rightarrow> string) \<Rightarrow> (pydict \<Rightarrow> verr list + pydict) \<Rightarrow> (nat \<times> pydict) list \<Rightarrow>
   pydict list \<Rightarrow> error_info list \<Rightarrow> exc + (pydict list \<times> error_info list)" where
  "validate_rows m render schema [] valid_rows errs = Inr (valid_rows, errs)"
| "validate_rows m render schema ((idx, row) # rest) valid_rows errs =
     (case schema (row_dict row) of
        Inr dumped \<Rightarrow>
          (let valid_row = dict_update row dumped;
               valid_row = (if m = ''flag'' then dict_set valid_row ''_is_valid'' (PBool True)
                            else valid_row)
           in validate_rows m render schema rest (valid_rows @ [valid_row]) errs)
      | Inl e \<Rightarrow>
          (let errs = errs @ [\<lparr>row_index = idx, errors = e, data = row\<rparr>]
           in if m = ''strict'' then Inl (ValidationFailed e)
              else if m = ''flag'' then
                (let flagged_row = dict_set row ''_is_valid'' (PBool False);
                     flagged_row = dict_set flagged_row ''_validation_errors'' (PStr (render e))
                 in validate_rows m render schema rest (valid_rows @ [flagged_row]) errs)
              else validate_rows m render schema rest valid_rows errs))"

text \<open>\<open>SchemaValidator.validate\<close>.\<close>

definition validate ::
  "runtime \<Rightarrow> validator \<Rightarrow> dataframe \<Rightarrow> string \<Rightarrow> exc + (dataframe \<times> error_info list)" where
  "validate rt self df schema_name =
     (case map_of SCHEMAS schema_name of
        None \<Rightarrow> Inl (UnknownSchema schema_name)
      | Some schema \<Rightarrow>
          (case validate_rows (mode self) (str_errors rt) (validate_model rt schema) (iterrows df) [] [] of
             Inl e \<Rightarrow> Inl e
           | Inr (valid_rows, errs) \<Rightarrow> Inr (DataFrame valid_rows, errs)))"

section \<open>The warehouse loader\<close>

text \<open>
  The warehouse is an external collaborator. The loader reaches it with these statements:
  the text statement of \<open>conn.execute(text(sql), params)\<close>; the two steps of
  \<open>DataFrame.to_sql\<close>, preparing the target table as \<open>if_exists\<close> asks (create it, refuse an
  existing one, or clear it) and one multi-row insert per batch (\<open>method='multi'\<close>); and the
  three steps of a transaction opened by \<open>engine.begin()\<close>: connecting and beginning,
  committing, rolling back.
\<close>

datatype if_exists = Append | Replace | Fail

datatype stmt =
    TextStmt string pydict
  | PrepareTable string string if_exists "string list"
  | InsertRows string string "string list" "pyval list list"
  | Begin
  | Commit
  | Rollback

text \<open>
  A warehouse executes a statement on its state and answers with the new state or with an
  error message. \<open>on_abort\<close> is the state a failed \<open>to_sql\<close> leaves behind, from the state
  before the call and the state reached at the failure.
\<close>

record 'db warehouse =
  execute :: "'db \<Rightarrow> stmt \<Rightarrow> string + 'db"
  on_abort :: "'db \<Rightarrow> 'db \<Rightarrow> 'db"

text \<open>The state of the world around the loader: the warehouse and every statement sent to it.\<close>

record 'db world =
  db :: 'db
  sent :: "stmt list"

datatype load_exc = LoadError string | WarehouseError string

definition send :: "'db warehouse \<Rightarrow> 'db world \<Rightarrow> stmt \<Rightarrow> string option \<times> 'db world" where
  "send wh w s =
     (case execute wh (db w) s of
        Inl e \<Rightarrow> (Some e, w\<lparr>sent := sent w @ [s]\<rparr>)
      | Inr d \<Rightarrow> (None, \<lparr>db = d, sent = sent w @ [s]\<rparr>))"

text \<open>Statements sent one after the other; the first error stops the sequence.\<close>

fun send_all :: "'db warehouse \<Rightarrow> 'db world \<Rightarrow> stmt list \<Rightarrow> string option \<times> 'db world" where
  "send_all wh w [] = (None, w)"
| "send_all wh w (s # ss) =
     (case send wh w s of
        (Some e, w') \<Rightarrow> (Some e, w')
      | (None, w') \<Rightarrow> send_all wh w' ss)"

text \<open>
  \<open>with self.engine.begin() as conn\<close>: a connection is taken and a transaction begun; when
  that fails the block does not run. The block's statements follow. When the block ends the
  transaction is committed; when a statement or the commit raises, a rollback is sent and
  the error propagates. What commit and rollback do to the tables is the warehouse's
  business.
\<close>

definition transaction :: "'db warehouse \<Rightarrow> 'db world \<Rightarrow> stmt list \<Rightarrow> string option \<times> 'db world" where
  "transaction wh w ss =
     (case send wh w Begin of
        (Some e, w0) \<Rightarrow> (Some e, w0)
      | (None, w0) \<Rightarrow>
          (case send_all wh w0 ss of
             (Some e, w1) \<Rightarrow> (Some e, snd (send wh w1 Rollback))
           | (None, w1) \<Rightarrow>
               (case send wh w1 Commit of
                  (Some e, w2) \<Rightarrow> (Some e, snd (send wh w2 Rollback))
                | (None, w2) \<Rightarrow> (None, w2))))"

text \<open>\<open>sep.join(parts)\<close>.\<close>

fun join :: "string \<Rightarrow> string list \<Rightarrow> string" where
  "join sep [] = []"
| "join sep [x] = x"
| "join sep (x # y # ys) = x @ sep @ join sep (y # ys)"

text \<open>The statement text of \<open>upsert\<close>, line breaks and indentation included.\<close>

definition upsert_sql :: "string \<Rightarrow> string \<Rightarrow> string list \<Rightarrow> string list \<Rightarrow> string list \<Rightarrow> string" where
  "upsert_sql schema table_name columns key_columns update_columns =
     (let col_list = join '', '' columns;
          placeholders = join '', '' (map (\<lambda>c. '':'' @ c) columns);
          key_list = join '', '' key_columns;
          update_set = join '', '' (map (\<lambda>c. c @ '' = EXCLUDED.'' @ c) update_columns);
          nl = CHR 0x0A # ''        ''
      in nl @ ''INSERT INTO '' @ schema @ ''.'' @ table_name @ '' ('' @ col_list @ '')'' @
         nl @ ''VALUES ('' @ placeholders @ '')'' @
         nl @ ''ON CONFLICT ('' @ key_list @ '')'' @
         nl @ ''DO UPDATE SET '' @ update_set @ nl)"

text \<open>The statements of one \<open>upsert\<close> call: the same text for every row, with the row as parameters.\<close>

definition upsert_stmts ::
  "dataframe \<Rightarrow> string \<Rightarrow> string \<Rightarrow> string list \<Rightarrow> string list option \<Rightarrow> stmt list" where
  "upsert_stmts df table_name schema key_columns update_columns =
     (let update_columns =
            (case update_columns of
               None \<Rightarrow> filter (\<lambda>c. c \<notin> set key_columns) (df_columns df)
             | Some cs \<Rightarrow> cs);
          sql = upsert_sql schema table_name (df_columns df) key_columns update_columns
      in map (\<lambda>(idx, row). TextStmt sql row) (iterrows df))"

text \<open>\<open>PostgresLoader.upsert\<close>. An exception of the warehouse propagates as it is.\<close>

definition upsert ::
  "'db warehouse \<Rightarrow> 'db world \<Rightarrow> dataframe \<Rightarrow> string \<Rightarrow> string \<Rightarrow> string list \<Rightarrow> string list option \<Rightarrow>
   (load_exc + nat) \<times> 'db world" where
  "upsert wh w df table_name schema key_columns update_columns =
     (if df_empty df then (Inr 0, w)
      else
        (case transaction wh w (upsert_stmts df table_name schema key_columns update_columns) of
           (Some e, w') \<Rightarrow> (Inl (WarehouseError e), w')
         | (None, w') \<Rightarrow> (Inr (df_len df), w')))"

text \<open>The batches of \<open>to_sql\<close>: consecutive groups of \<open>chunksize\<close> rows, the last one shorter.\<close>

function chunks :: "nat \<Rightarrow> 'a list \<Rightarrow> 'a list list" where
  "chunks n xs = (if n = 0 \<or> xs = [] then [] else take n xs # chunks n (drop n xs))"
  by pat_completeness auto
termination
  by (relation "measure (\<lambda>(n, xs). length xs)") auto

text \<open>The multi-row inserts of one \<open>to_sql\<close> call (\<open>method='multi'\<close>), one per batch.\<close>

definition insert_stmts :: "dataframe \<Rightarrow> string \<Rightarrow> string \<Rightarrow> nat \<Rightarrow> stmt list" where
  "insert_stmts df table_name schema chunk_size =
     map (InsertRows schema table_name (df_columns df)) (chunks chunk_size (df_values df))"

text \<open>
  \<open>df.to_sql(name, con, schema, if_exists, index=False, chunksize, method='multi')\<close> on a
  frame with rows: the table is prepared, a chunk size of 0 is refused, and the batches are
  inserted in order until one fails. The result is the error message, if any.
\<close>

definition to_sql ::
  "'db warehouse \<Rightarrow> 'db world \<Rightarrow> dataframe \<Rightarrow> string \<Rightarrow> string \<Rightarrow> if_exists \<Rightarrow> nat \<Rightarrow>
   string option \<times> 'db world" where
  "to_sql wh w df table_name schema if_exists chunk_size =
     (case send wh w (PrepareTable schema table_name if_exists (df_columns df)) of
        (Some e, w') \<Rightarrow> (Some e, w'\<lparr>db := on_abort wh (db w) (db w')\<rparr>)
      | (None, w') \<Rightarrow>
          if chunk_size = 0
          then (Some ''chunksize argument should be non-zero'', w'\<lparr>db := on_abort wh (db w) (db w')\<rparr>)
          else
            (case send_all wh w' (insert_stmts df table_name schema chunk_size) of
               (Some e, w'') \<Rightarrow> (Some e, w''\<lparr>db := on_abort wh (db w) (db w'')\<rparr>)
             | (None, w'') \<Rightarrow> (None, w'')))"

text \<open>\<open>PostgresLoader.load\<close>: any exception of \<open>to_sql\<close> becomes a \<open>LoadError\<close>.\<close>

definition load ::
  "'db warehouse \<Rightarrow> 'db world \<Rightarrow> dataframe \<Rightarrow> string \<Rightarrow> string \<Rightarrow> if_exists \<Rightarrow> nat \<Rightarrow>
   (load_exc + nat) \<times> 'db world" where
  "load wh w df table_name schema if_exists chunk_size =
     (if df_empty df then (Inr 0, w)
      else
        (case to_sql wh w df table_name schema if_exists chunk_size of
           (Some e, w') \<Rightarrow> (Inl (LoadError (''Failed to load data: '' @ e)), w')
         | (None, w') \<Rightarrow> (Inr (df_len df), w')))"

section \<open>Concrete instances\<close>

text \<open>
  A runtime without lax conversions: a value that is not of the field's type is refused.
  The instances below feed every field a value of its own type, or an empty string to a
  timestamp field, which no conversion accepts.
\<close>

definition no_lax :: runtime where
  "no_lax = \<lparr>lax_float = (\<lambda>v. Inl ''float_type''), lax_int = (\<lambda>v. Inl ''int_type''),
             lax_datetime = (\<lambda>v. Inl ''datetime_type''), str_errors = (\<lambda>es. ''errors'')\<rparr>"

text \<open>
  A warehouse that holds one table as a list of rows and refuses a null in any cell. It has
  no transactions: beginning, committing and rolling back change nothing. A failed
  \<open>to_sql\<close> leaves the table as it was before the call.
\<close>

fun table_execute :: "pyval list list \<Rightarrow> stmt \<Rightarrow> string + pyval list list" where
  "table_execute t (TextStmt sql params) =
     (if PNone \<in> set (map snd params) then Inl ''not-null violation''
      else Inr (t @ [map snd params]))"
| "table_execute t (PrepareTable schema name if_exists cols) =
     (case if_exists of
        Append \<Rightarrow> Inr t
      | Replace \<Rightarrow> Inr []
      | Fail \<Rightarrow> (if t = [] then Inr t else Inl ''table already exists''))"
| "table_execute t (InsertRows schema name cols rows) =
     (if PNone \<in> set (concat rows) then Inl ''not-null violation'' else Inr (t @ rows))"
| "table_execute t Begin = Inr t"
| "table_execute t Commit = Inr t"
| "table_execute t Rollback = Inr t"

definition table_store :: "(pyval list list) warehouse" where
  "table_store = \<lparr>execute = table_execute, on_abort = (\<lambda>before reached. before)\<rparr>"

definition one_row_world :: "(pyval list list) world" where
  "one_row_world = \<lparr>db = [[PStr ''z'']], sent = []\<rparr>"

text \<open>
  A transactional warehouse: its state is the table together with the table as it stood at
  the last begin or commit, to which a rollback returns. A null in the \<open>name\<close> parameter
  of a text statement is refused. A connection can be taken unless the warehouse is down.
\<close>

datatype tx_db = Up "pyval list list" "pyval list list" | Down

fun tx_execute :: "tx_db \<Rightarrow> stmt \<Rightarrow> string + tx_db" where
  "tx_execute Down s = Inl ''connection refused''"
| "tx_execute (Up t saved) Begin = Inr (Up t t)"
| "tx_execute (Up t saved) Commit = Inr (Up t t)"
| "tx_execute (Up t saved) Rollback = Inr (Up saved saved)"
| "tx_execute (Up t saved) (TextStmt sql params) =
     (if map_of params ''name'' = Some PNone then Inl ''not-null violation''
      else Inr (Up (t @ [map snd params]) saved))"
| "tx_execute (Up t saved) (PrepareTable schema name if_exists cols) = Inr (Up t saved)"
| "tx_execute (Up t saved) (InsertRows schema name cols rows) = Inr (Up (t @ rows) saved)"

definition tx_store :: "tx_db warehouse" where
  "tx_store = \<lparr>execute = tx_execute, on_abort = (\<lambda>before reached. before)\<rparr>"

definition tx_world :: "tx_db world" where
  "tx_world = \<lparr>db = Up [[PInt 1, PStr ''z'']] [[PInt 1, PStr ''z'']], sent = []\<rparr>"

definition people_null_second :: dataframe where
  "people_null_second =
     \<lparr>df_columns = [''id'', ''name''],
      df_values = [[PInt 2, PStr ''a''], [PInt 3, PNone], [PInt 4, PStr ''c'']]\<rparr>"

definition people_two :: dataframe where
  "people_two =
     \<lparr>df_columns = [''id'', ''name''], df_values = [[PInt 2, PStr ''a''], [PInt 3, PStr ''b'']]\<rparr>"

definition customers_mixed :: dataframe where
  "customers_mixed =
     \<lparr>df_columns = [''customer_id'', ''first_name'', ''last_name'', ''email'', ''country'', ''_source''],
      df_values =
        [[PStr ''C001'', PStr ''John'', PStr ''Doe'', PStr ''Valid@Example.com'', PStr ''US'', PStr ''csv''],
         [PStr ''C002'', PStr ''Jane'', PStr ''Doe'', PStr ''invalid-email'', PStr ''UK'', PStr ''csv''],
         [PStr ''C003'', PStr ''Jim'', PStr ''Roe'', PStr ''jim@example.org'', PStr ''DE'', PStr ''csv'']]\<rparr>"

definition names_null_second :: dataframe where
  "names_null_second = \<lparr>df_columns = [''name''], df_values = [[PStr ''a''], [PNone], [PStr ''c'']]\<rparr>"

definition names_null_first :: dataframe where
  "names_null_first = \<lparr>df_columns = [''name''], df_values = [[PNone], [PStr ''b''], [PStr ''c'']]\<rparr>"


definition no_rows :: dataframe where
  "no_rows = \<lparr>df_columns = [''name''], df_values = []\<rparr>"

definition customers_empty_date :: dataframe where
  "customers_empty_date =
     \<lparr>df_columns = [''customer_id'', ''first_name'', ''last_name'', ''email'', ''country'', ''created_at''],
      df_values =
        [[PStr ''C001'', PStr ''John'', PStr ''Doe'', PStr ''john@example.com'', PStr ''US'', PStr []]]\<rparr>"

definition customers_null_date :: dataframe where
  "customers_null_date =
     \<lparr>df_columns = [''customer_id'', ''first_name'', ''last_name'', ''email'', ''country'', ''created_at''],
      df_values =
        [[PStr ''C001'', PStr ''John'', PStr ''Doe'', PStr ''john@example.com'', PStr ''US'', PNone]]\<rparr>"

text \<open>A customer row whose optional timestamp is \<open>nan\<close>.\<close>

definition customers_nan_date :: dataframe where
  "customers_nan_date =
     \<lparr>df_columns = [''customer_id'', ''first_name'', ''last_name'', ''email'', ''country'', ''created_at''],
      df_values =
        [[PStr ''C001'', PStr ''John'', PStr ''Doe'', PStr ''john@example.com'', PStr ''US'', PNaN]]\<rparr>"


definition products_tiny_price :: dataframe where
  "products_tiny_price =
     \<lparr>df_columns = [''product_id'', ''product_name'', ''category'', ''price'', ''cost''],
      df_values = [[PStr ''P001'', PStr ''Pen'', PStr ''Office'', PFloat (4 / 1000), PFloat (1 / 2)]]\<rparr>"

definition products_tiny_rounded :: dataframe where
  "products_tiny_rounded =
     \<lparr>df_columns = [''product_id'', ''product_name'', ''category'', ''price'', ''cost''],
      df_values = [[PStr ''P001'', PStr ''Pen'', PStr ''Office'', PFloat 0, PFloat (1 / 2)]]\<rparr>"

section \<open>Auxiliary notions\<close>

text \<open>
  A field for which an absent key and a null value are decided alike: a required field of a
  type that refuses null, or an optional timestamp whose default is null. Two field results
  agree when both are errors or both are the same value.
\<close>

definition null_like :: "field \<Rightarrow> bool" where
  "null_like f = (case fdefault f of
                    None \<Rightarrow> ftype f \<noteq> OptDatetimeT
                  | Some dv \<Rightarrow> dv = PNone \<and> ftype f = OptDatetimeT)"

fun agree :: "verr + pyval \<Rightarrow> verr + pyval \<Rightarrow> bool" where
  "agree (Inr x) (Inr y) = (x = y)"
| "agree (Inl a) (Inl b) = True"
| "agree _ _ = False"

section \<open>Properties of the validator\<close>

lemma length_iterrows: "length (iterrows df) = df_len df"
  by (simp add: iterrows_def df_len_def)

lemma df_len_DataFrame: "df_len (DataFrame records) = length records"
  by (simp add: DataFrame_def df_len_def Let_def)

lemma validate_rows_filter_count:
  "\<exists>vr er. validate_rows ''filter'' render schema rows acc errs = Inr (vr, er) \<and>
      length vr + length er = length acc + length errs + length rows"
proof (induction rows arbitrary: acc errs)
  case Nil
  show ?case by simp
next
  case (Cons p rows)
  obtain idx row where p: "p = (idx, row)" by (cases p)
  show ?case
  proof (cases "schema (row_dict row)")
    case (Inl e)
    from Cons.IH [of acc "errs @ [\<lparr>row_index = idx, errors = e, data = row\<rparr>]"]
    show ?thesis using Inl p by auto
  next
    case (Inr dumped)
    from Cons.IH [of "acc @ [dict_update row dumped]" errs]
    show ?thesis using Inr p by auto
  qed
qed

lemma validate_rows_flag_count:
  "\<exists>vr er. validate_rows ''flag'' render schema rows acc errs = Inr (vr, er) \<and>
      length vr = length acc + length rows"
proof (induction rows arbitrary: acc errs)
  case Nil
  show ?case by simp
next
  case (Cons p rows)
  obtain idx row where p: "p = (idx, row)" by (cases p)
  show ?case
  proof (cases "schema (row_dict row)")
    case (Inl e)
    from Cons.IH [of "acc @ [dict_set (dict_set row ''_is_valid'' (PBool False))
                                 ''_validation_errors'' (PStr (render e))]"
        "errs @ [\<lparr>row_index = idx, errors = e, data = row\<rparr>]"]
    show ?thesis using Inl p by auto
  next
    case (Inr dumped)
    from Cons.IH [of "acc @ [dict_set (dict_update row dumped) ''_is_valid'' (PBool True)]" errs]
    show ?thesis using Inr p by auto
  qed
qed

lemma validate_rows_strict_abort:
  assumes "\<forall>(j, r) \<in> set pre. \<not> isl (schema (row_dict r))"
    and "schema (row_dict row) = Inl e"
  shows "validate_rows ''strict'' render schema (pre @ (idx, row) # post) acc errs
           = Inl (ValidationFailed e)"
  using assms
proof (induction pre arbitrary: acc errs)
  case Nil
  then show ?case by simp
next
  case (Cons p pre)
  obtain j r where p: "p = (j, r)" by (cases p)
  from Cons.prems(1) p obtain dumped where d: "schema (row_dict r) = Inr dumped"
    by (cases "schema (row_dict r)") auto
  from Cons.prems(1) have rest: "\<forall>(j, r) \<in> set pre. \<not> isl (schema (row_dict r))" by simp
  show ?case using Cons.IH [OF rest Cons.prems(2)] p d by simp
qed

text \<open>
  C2. For every dataset with at least one invalid row, \<open>validate\<close> in strict mode stops at
  the first invalid row in input order: the rows before it were all valid, the call returns
  no accepted rows at all, and its result is the single exception formatted from the
  validation errors of that row, however many valid rows the dataset has.
\<close>

theorem strict_mode_fail_fast:
  assumes "map_of SCHEMAS schema_name = Some schema"
    and "\<exists>(idx, row) \<in> set (iterrows df). isl (validate_model rt schema (row_dict row))"
  shows "\<exists>pre idx row post e.
           iterrows df = pre @ (idx, row) # post \<and>
           (\<forall>(j, r) \<in> set pre. \<not> isl (validate_model rt schema (row_dict r))) \<and>
           validate_model rt schema (row_dict row) = Inl e \<and>
           validate rt \<lparr>mode = ''strict''\<rparr> df schema_name = Inl (ValidationFailed e)"
proof -
  let ?bad = "\<lambda>p. isl (validate_model rt schema (row_dict (snd p)))"
  from assms(2) have "\<exists>p \<in> set (iterrows df). ?bad p" by force
  then obtain pre p post where split: "iterrows df = pre @ p # post" and bad: "?bad p"
    and good: "\<forall>q \<in> set pre. \<not> ?bad q"
    using split_list_first_prop [of "iterrows df" ?bad] by blast
  obtain idx row where p: "p = (idx, row)" by (cases p)
  from bad p obtain e where e: "validate_model rt schema (row_dict row) = Inl e"
    by (cases "validate_model rt schema (row_dict row)") auto
  from good have good': "\<forall>(j, r) \<in> set pre. \<not> isl (validate_model rt schema (row_dict r))"
    by auto
  have "validate_rows ''strict'' (str_errors rt) (validate_model rt schema)
          (pre @ (idx, row) # post) [] [] = Inl (ValidationFailed e)"
    using good' e by (rule validate_rows_strict_abort)
  then have "validate rt \<lparr>mode = ''strict''\<rparr> df schema_name = Inl (ValidationFailed e)"
    using assms(1) split p by (simp add: validate_def)
  with split p good' e show ?thesis by blast
qed

theorem strict_mode_fail_fast_witness:
  "\<exists>pre idx row post e.
     iterrows customers_mixed = pre @ (idx, row) # post \<and>
     list_all (\<lambda>(j, r). \<not> isl (validate_model no_lax CustomerRecord (row_dict r))) pre \<and>
     validate_model no_lax CustomerRecord (row_dict row) = Inl e \<and>
     validate no_lax \<lparr>mode = ''strict''\<rparr> customers_mixed ''customers'' = Inl (ValidationFailed e)"
proof -
  have s: "map_of SCHEMAS ''customers'' = Some CustomerRecord" by (simp add: SCHEMAS_def)
  have "isl (validate_model no_lax CustomerRecord (row_dict (snd (iterrows customers_mixed ! 1))))"
    by code_simp
  moreover have "iterrows customers_mixed ! 1 \<in> set (iterrows customers_mixed)"
    by (rule nth_mem) (simp add: length_iterrows df_len_def customers_mixed_def)
  ultimately have
    b: "\<exists>(idx, row) \<in> set (iterrows customers_mixed).
          isl (validate_model no_lax CustomerRecord (row_dict row))"
    by (metis (mono_tags, lifting) case_prod_beta)
  show ?thesis using strict_mode_fail_fast [OF s b] by (simp add: list_all_iff)
qed

text \<open>
  C10. Constructing a \<open>SchemaValidator\<close> with a mode other than \<open>strict\<close>, \<open>filter\<close> or
  \<open>flag\<close> fails with the invalid-mode error, so a validator that was constructed has one of
  these three modes.
\<close>

theorem invalid_mode_rejected:
  "(m \<notin> {''strict'', ''filter'', ''flag''} \<longrightarrow> SchemaValidator m = Inl (InvalidMode m)) \<and>
   (\<forall>v. SchemaValidator m = Inr v \<longrightarrow> mode v = m \<and> m \<in> {''strict'', ''filter'', ''flag''})"
  by (auto simp: SchemaValidator_def)

theorem invalid_mode_rejected_witness:
  "SchemaValidator ''fast'' = Inl (InvalidMode ''fast'') \<and>
   SchemaValidator ''flag'' = Inr \<lparr>mode = ''flag''\<rparr> \<and>
   mode \<lparr>mode = ''flag''\<rparr> \<in> {''strict'', ''filter'', ''flag''}"
proof -
  have a: "''fast'' \<notin> {''strict'', ''filter'', ''flag''}" by simp
  have b: "SchemaValidator ''flag'' = Inr \<lparr>mode = ''flag''\<rparr>" by (simp add: SchemaValidator_def)
  from invalid_mode_rejected [of "''fast''"] a
  have "SchemaValidator ''fast'' = Inl (InvalidMode ''fast'')" by blast
  moreover from invalid_mode_rejected [of "''flag''"] b
  have "mode \<lparr>mode = ''flag''\<rparr> \<in> {''strict'', ''filter'', ''flag''}" by simp
  ultimately show ?thesis using b by simp
qed

subsection \<open>Dictionaries and frames\<close>

lemma map_of_dict_set: "map_of (dict_set d k v) k' = (if k' = k then Some v else map_of d k')"
  by (induction d) auto

lemma map_of_dict_update:
  "map_of (dict_update d other) k =
     (case map_of (rev other) k of Some v \<Rightarrow> Some v | None \<Rightarrow> map_of d k)"
  by (induction other arbitrary: d) (auto simp: map_of_dict_set map_add_def split: option.splits)

lemma keys_dict_set: "fst ` set (dict_set d k v) = insert k (fst ` set d)"
  unfolding dom_map_of_conv_image_fst [symmetric] by (auto simp: map_of_dict_set dom_def)

lemma keys_dict_update: "fst ` set (dict_update d other) = fst ` set d \<union> fst ` set other"
proof -
  have "dom (map_of (dict_update d other)) = dom (map_of d) \<union> dom (map_of (rev other))"
    by (auto simp: map_of_dict_update dom_def split: option.splits)
  then show ?thesis by (simp add: dom_map_of_conv_image_fst)
qed


lemma map_of_row_dict:
  "map_of (row_dict row) k =
     (if startswith k ''_'' then None
      else map_option (\<lambda>v. if isna v then PNone else v) (map_of row k))"
  by (induction row) (auto simp: row_dict_def)

lemma map_of_dict_update_zip:
  "map_of (dict_update d (zip ks (map f ks))) k = (if k \<in> set ks then Some (f k) else map_of d k)"
  by (induction ks arbitrary: d) (auto simp: map_of_dict_set)

lemma iterrows_records: "map snd (iterrows df) = map (to_dict df) (df_values df)"
  by (simp add: iterrows_def map_snd_zip)

lemma columns_DataFrame:
  "set (df_columns (DataFrame records)) = (\<Union>r \<in> set records. fst ` set r)"
  by (auto simp: DataFrame_def first_seen_def Let_def)

lemma map_of_DataFrame_row:
  assumes "r \<in> set records"
  shows "map_of (to_dict (DataFrame records)
                  (map (\<lambda>c. case map_of r c of Some v \<Rightarrow> v | None \<Rightarrow> PNaN)
                       (df_columns (DataFrame records)))) k =
         (if k \<in> fst ` set r then map_of r k
          else if k \<in> set (df_columns (DataFrame records)) then Some PNaN else None)"
proof (cases "k \<in> fst ` set r")
  case True
  then have c: "k \<in> set (df_columns (DataFrame records))"
    using assms by (auto simp: columns_DataFrame)
  from True obtain v where "map_of r k = Some v"
    by (metis domD dom_map_of_conv_image_fst)
  with True c show ?thesis by (simp add: to_dict_def map_of_dict_update_zip)
next
  case False
  then have "map_of r k = None" by (simp add: map_of_eq_None_iff)
  with False show ?thesis by (simp add: to_dict_def map_of_dict_update_zip)
qed

lemma records_DataFrame:
  "map snd (iterrows (DataFrame records)) =
     map (\<lambda>r. to_dict (DataFrame records)
                 (map (\<lambda>c. case map_of r c of Some v \<Rightarrow> v | None \<Rightarrow> PNaN)
                      (df_columns (DataFrame records)))) records"
  by (simp add: iterrows_records) (simp add: DataFrame_def Let_def)

lemma list_all2_DataFrame:
  assumes "list_all2 P rows records"
    and "\<And>row r out. P row r \<Longrightarrow> (\<forall>k \<in> fst ` set r. map_of out k = map_of r k) \<Longrightarrow> Q row out"
  shows "list_all2 Q rows (map snd (iterrows (DataFrame records)))"
proof -
  let ?rect = "\<lambda>r. to_dict (DataFrame records)
                 (map (\<lambda>c. case map_of r c of Some v \<Rightarrow> v | None \<Rightarrow> PNaN)
                      (df_columns (DataFrame records)))"
  have "list_all2 (\<lambda>row r. r \<in> set records \<and> P row r) rows records"
    using assms(1) by (auto simp: list_all2_conv_all_nth)
  moreover have "Q row (?rect r)" if "r \<in> set records \<and> P row r" for row r
  proof (rule assms(2))
    show "P row r" using that by simp
    show "\<forall>k \<in> fst ` set r. map_of (?rect r) k = map_of r k"
    proof
      fix k assume "k \<in> fst ` set r"
      then show "map_of (?rect r) k = map_of r k"
        using that map_of_DataFrame_row [of r records k] by simp
    qed
  qed
  ultimately have "list_all2 (\<lambda>row r. Q row (?rect r)) rows records"
    by (rule list_all2_mono)
  then show ?thesis
    unfolding records_DataFrame list_all2_map2 .
qed

subsection \<open>Null coercion\<close>

lemma first_violation_None [simp]: "first_violation cs PNone = None"
  by (induction cs) auto

lemma validate_field_null:
  "validate_field rt f PNone = (if ftype f = OptDatetimeT then Inr PNone
      else Inl (VErr (case ftype f of StrT \<Rightarrow> ''string_type'' | FloatT \<Rightarrow> ''float_type'' | IntT \<Rightarrow> ''int_type'')
                 (fname f) (InputValue PNone)))"
  by (cases "ftype f"; cases "after f") (auto simp: validate_field_def)

lemma field_result_absent_null:
  assumes "null_like f" and "map_of d n = None"
  shows "agree (field_result rt d f) (field_result rt (d @ [(n, PNone)]) f)"
proof (cases "fname f = n")
  case True
  then show ?thesis using assms
    by (auto simp: field_result_def null_like_def validate_field_null map_add_def
        split: option.splits)
next
  case False
  then show ?thesis using assms
    by (cases "validate_field rt f (the (map_of d (fname f)))")
       (auto simp: field_result_def null_like_def map_add_def split: option.splits)
qed

lemma agree_lefts_rights:
  "list_all2 agree rs rs' \<Longrightarrow> (lefts rs = [] \<longleftrightarrow> lefts rs' = []) \<and> rights rs = rights rs'"
proof (induction rs rs' rule: list_all2_induct)
  case Nil
  show ?case by simp
next
  case (Cons a as b bs)
  then show ?case by (cases a; cases b) auto
qed

lemma validate_model_absent_null:
  assumes "\<forall>f \<in> set fs. null_like f" and "map_of d n = None"
  shows "validate_model rt fs d = Inr x \<longleftrightarrow> validate_model rt fs (d @ [(n, PNone)]) = Inr x"
proof -
  have "list_all2 agree (map (field_result rt d) fs) (map (field_result rt (d @ [(n, PNone)])) fs)"
    using assms by (simp add: list_all2_map1 list_all2_map2 list_all2_same field_result_absent_null)
  from agree_lefts_rights [OF this] show ?thesis
    by (auto simp: validate_model_def Let_def)
qed

lemma schemas_null_like: "\<forall>schema \<in> snd ` set SCHEMAS. \<forall>f \<in> set schema. null_like f"
  by (simp add: SCHEMAS_def CustomerRecord_def ProductRecord_def OrderRecord_def null_like_def)

lemma validate_rows_schema_cong:
  assumes "\<forall>(idx, row) \<in> set rows. schema' (row_dict row) = schema (row_dict row)"
  shows "validate_rows m render schema' rows acc errs = validate_rows m render schema rows acc errs"
  using assms
proof (induction rows arbitrary: acc errs m)
  case Nil
  show ?case by simp
next
  case (Cons p rows)
  obtain idx row where p: "p = (idx, row)" by (cases p)
  from Cons.prems p have here: "schema' (row_dict row) = schema (row_dict row)"
    and rest: "\<forall>(idx, row) \<in> set rows. schema' (row_dict row) = schema (row_dict row)"
    by auto
  show ?case
  proof (cases "schema (row_dict row)")
    case (Inl e)
    then show ?thesis unfolding p using here by (simp add: Let_def Cons.IH [OF rest])
  next
    case (Inr dumped)
    then show ?thesis unfolding p using here by (simp add: Let_def Cons.IH [OF rest])
  qed
qed

lemma coerce_runtime_cong:
  assumes "lax_float rt' v = lax_float rt v" "lax_int rt' v = lax_int rt v"
    "lax_datetime rt' v = lax_datetime rt v"
  shows "coerce rt' ty v = coerce rt ty v"
  using assms by (cases ty; cases v) simp_all

lemma validate_model_runtime_cong:
  assumes agree: "\<forall>v. v \<noteq> PNaN \<and> v \<noteq> PNaT \<longrightarrow>
                    lax_float rt' v = lax_float rt v \<and> lax_int rt' v = lax_int rt v \<and>
                    lax_datetime rt' v = lax_datetime rt v"
    and coerced: "\<forall>k v. map_of d k = Some v \<longrightarrow> v \<noteq> PNaN \<and> v \<noteq> PNaT"
  shows "validate_model rt' fs d = validate_model rt fs d"
proof -
  have "field_result rt' d f = field_result rt d f" for f
  proof (cases "map_of d (fname f)")
    case None
    then show ?thesis by (simp add: field_result_def)
  next
    case (Some v)
    with coerced agree have "coerce rt' (ftype f) v = coerce rt (ftype f) v"
      by (intro coerce_runtime_cong) auto
    with Some show ?thesis by (simp add: field_result_def validate_field_def)
  qed
  then have "field_result rt' d = field_result rt d" by (rule ext)
  then show ?thesis by (simp add: validate_model_def)
qed

lemma row_dict_coerced: "map_of (row_dict row) k = Some v \<Longrightarrow> v \<noteq> PNaN \<and> v \<noteq> PNaT"
  by (cases "map_of row k") (auto simp: map_of_row_dict split: if_splits)

text \<open>
  C6, as stated, fails for the empty value: an empty string is not replaced by null. It
  reaches the schema as it is, so a row whose optional timestamp is the empty string is
  rejected, while the same row with a null timestamp is accepted.
\<close>

theorem empty_string_not_null_counterexample:
  "map_of (row_dict (to_dict customers_empty_date (df_values customers_empty_date ! 0))) ''created_at''
     = Some (PStr []) \<and>
   (\<exists>errs. validate no_lax \<lparr>mode = ''filter''\<rparr> customers_empty_date ''customers''
             = Inr (DataFrame [], errs) \<and> length errs = 1) \<and>
   (\<exists>accepted. validate no_lax \<lparr>mode = ''filter''\<rparr> customers_null_date ''customers''
             = Inr (accepted, []) \<and> df_len accepted = 1)"
proof (intro conjI)
  show "map_of (row_dict (to_dict customers_empty_date (df_values customers_empty_date ! 0))) ''created_at''
     = Some (PStr [])"
    by code_simp
  have "validate no_lax \<lparr>mode = ''filter''\<rparr> customers_empty_date ''customers''
          = Inr (DataFrame [],
              [\<lparr>row_index = 0,
                errors = [VErr ''datetime_type'' ''created_at'' (InputValue (PStr []))],
                data = to_dict customers_empty_date (df_values customers_empty_date ! 0)\<rparr>])"
    by code_simp
  then show "\<exists>errs. validate no_lax \<lparr>mode = ''filter''\<rparr> customers_empty_date ''customers''
             = Inr (DataFrame [], errs) \<and> length errs = 1"
    by simp
  have "validate no_lax \<lparr>mode = ''filter''\<rparr> customers_null_date ''customers''
          = Inr (customers_null_date, [])"
    by code_simp
  then show "\<exists>accepted. validate no_lax \<lparr>mode = ''filter''\<rparr> customers_null_date ''customers''
             = Inr (accepted, []) \<and> df_len accepted = 1"
    by (simp add: df_len_def customers_null_date_def)
qed

text \<open>
  C6, amended. For every row processed by \<open>validate\<close> the schema is applied to one dict
  only: the row without its metadata columns, in which every value that pandas counts as
  missing (\<open>None\<close>, \<open>nan\<close>, \<open>NaT\<close>) is replaced by null and every other value, the empty
  string included, is kept as it is; an absent key stays absent. So the outcome of
  \<open>validate\<close> depends on the schema only through its answers on these dicts, and what the
  type conversions would make of \<open>nan\<close> or \<open>NaT\<close> has no influence on it. For an absent
  key the registered schemas decide as they do for null: a dict is accepted without the key
  exactly when it is accepted with the key set to null, with the same validated record.
\<close>

theorem null_coercion:
  "((\<forall>(idx, row) \<in> set rows. \<forall>d.
        (\<forall>k. map_of d k =
               (if startswith k ''_'' then None
                else map_option (\<lambda>v. if isna v then PNone else v) (map_of row k))) \<longrightarrow>
        schema' d = schema d) \<longrightarrow>
    validate_rows m render schema' rows acc errs = validate_rows m render schema rows acc errs) \<and>
   ((\<forall>v. v \<noteq> PNaN \<and> v \<noteq> PNaT \<longrightarrow>
          lax_float rt' v = lax_float rt v \<and> lax_int rt' v = lax_int rt v \<and>
          lax_datetime rt' v = lax_datetime rt v) \<and> str_errors rt' = str_errors rt \<longrightarrow>
    validate rt' self df schema_name = validate rt self df schema_name) \<and>
   (\<forall>fs \<in> snd ` set SCHEMAS. map_of d n = None \<longrightarrow>
      (\<forall>x. validate_model rt fs d = Inr x \<longleftrightarrow>
           validate_model rt fs (d @ [(n, PNone)]) = Inr x))"
proof (intro conjI impI ballI allI)
  assume a: "\<forall>(idx, row) \<in> set rows. \<forall>d.
        (\<forall>k. map_of d k =
               (if startswith k ''_'' then None
                else map_option (\<lambda>v. if isna v then PNone else v) (map_of row k))) \<longrightarrow>
        schema' d = schema d"
  have "\<forall>(idx, row) \<in> set rows. schema' (row_dict row) = schema (row_dict row)"
  proof (intro ballI, clarify)
    fix idx row assume "(idx, row) \<in> set rows"
    with a have "\<forall>d. (\<forall>k. map_of d k =
               (if startswith k ''_'' then None
                else map_option (\<lambda>v. if isna v then PNone else v) (map_of row k))) \<longrightarrow>
        schema' d = schema d" by blast
    then show "schema' (row_dict row) = schema (row_dict row)"
      by (simp add: map_of_row_dict)
  qed
  then show "validate_rows m render schema' rows acc errs = validate_rows m render schema rows acc errs"
    by (rule validate_rows_schema_cong)
next
  assume b: "(\<forall>v. v \<noteq> PNaN \<and> v \<noteq> PNaT \<longrightarrow>
          lax_float rt' v = lax_float rt v \<and> lax_int rt' v = lax_int rt v \<and>
          lax_datetime rt' v = lax_datetime rt v) \<and> str_errors rt' = str_errors rt"
  show "validate rt' self df schema_name = validate rt self df schema_name"
  proof (cases "map_of SCHEMAS schema_name")
    case None
    then show ?thesis by (simp add: validate_def)
  next
    case (Some fs)
    have "\<forall>(idx, row) \<in> set (iterrows df).
            validate_model rt' fs (row_dict row) = validate_model rt fs (row_dict row)"
      using b by (auto intro!: validate_model_runtime_cong dest: row_dict_coerced)
    then have "validate_rows (mode self) (str_errors rt) (validate_model rt' fs) (iterrows df) [] []
               = validate_rows (mode self) (str_errors rt) (validate_model rt fs) (iterrows df) [] []"
      by (rule validate_rows_schema_cong)
    then show ?thesis using Some b by (simp add: validate_def)
  qed
next
  fix fs x assume "fs \<in> snd ` set SCHEMAS" "map_of d n = None"
  then show "validate_model rt fs d = Inr x \<longleftrightarrow> validate_model rt fs (d @ [(n, PNone)]) = Inr x"
    using schemas_null_like validate_model_absent_null [of fs d n rt x] by blast
qed

theorem null_coercion_witness:
  "validate_rows ''filter'' (str_errors no_lax)
     (\<lambda>d. if map_of d ''created_at'' = Some PNaN then Inl []
          else validate_model no_lax CustomerRecord d)
     (iterrows customers_nan_date) [] []
   = validate_rows ''filter'' (str_errors no_lax) (validate_model no_lax CustomerRecord)
       (iterrows customers_nan_date) [] [] \<and>
   validate (no_lax\<lparr>lax_datetime := (\<lambda>v. if v = PNaN then Inr 0 else Inl ''datetime_type'')\<rparr>)
     \<lparr>mode = ''filter''\<rparr> customers_nan_date ''customers''
   = validate no_lax \<lparr>mode = ''filter''\<rparr> customers_nan_date ''customers'' \<and>
   validate no_lax \<lparr>mode = ''filter''\<rparr> customers_nan_date ''customers''
   = Inr (customers_null_date, []) \<and>
   validate_model no_lax CustomerRecord
     ([(''customer_id'', PStr ''C001''), (''first_name'', PStr ''John''), (''last_name'', PStr ''Doe''),
       (''email'', PStr ''john@example.com''), (''country'', PStr ''US'')] @ [(''created_at'', PNone)])
     = Inr [(''customer_id'', PStr ''C001''), (''first_name'', PStr ''John''), (''last_name'', PStr ''Doe''),
            (''email'', PStr ''john@example.com''), (''country'', PStr ''US''), (''created_at'', PNone)]"
proof -
  let ?schema = "validate_model no_lax CustomerRecord"
  let ?schema' = "\<lambda>d. if map_of d ''created_at'' = Some PNaN then Inl [] else ?schema d"
  let ?rt' = "no_lax\<lparr>lax_datetime := (\<lambda>v. if v = PNaN then Inr 0 else Inl ''datetime_type'')\<rparr>"
  let ?d = "[(''customer_id'', PStr ''C001''), (''first_name'', PStr ''John''), (''last_name'', PStr ''Doe''),
       (''email'', PStr ''john@example.com''), (''country'', PStr ''US'')]"
  let ?x = "[(''customer_id'', PStr ''C001''), (''first_name'', PStr ''John''), (''last_name'', PStr ''Doe''),
            (''email'', PStr ''john@example.com''), (''country'', PStr ''US''), (''created_at'', PNone)]"
  have rows: "iterrows customers_nan_date =
     [(0, [(''customer_id'', PStr ''C001''), (''first_name'', PStr ''John''), (''last_name'', PStr ''Doe''),
           (''email'', PStr ''john@example.com''), (''country'', PStr ''US''), (''created_at'', PNaN)])]"
    by code_simp
  have h1: "\<forall>(idx, row) \<in> set (iterrows customers_nan_date). \<forall>d.
        (\<forall>k. map_of d k =
               (if startswith k ''_'' then None
                else map_option (\<lambda>v. if isna v then PNone else v) (map_of row k))) \<longrightarrow>
        ?schema' d = ?schema d"
  proof (intro ballI, clarify)
    fix idx row and d :: pydict
    assume mem: "(idx, row) \<in> set (iterrows customers_nan_date)"
      and sees: "\<forall>k. map_of d k =
               (if startswith k ''_'' then None
                else map_option (\<lambda>v. if isna v then PNone else v) (map_of row k))"
    from mem have "map_of row ''created_at'' = Some PNaN" unfolding rows by auto
    with sees have "map_of d ''created_at'' = Some PNone" by (simp add: startswith_def)
    then show "(if map_of d ''created_at'' = Some PNaN then Inl []
                else validate_model no_lax CustomerRecord d) = validate_model no_lax CustomerRecord d"
      by simp
  qed
  have h2: "(\<forall>v. v \<noteq> PNaN \<and> v \<noteq> PNaT \<longrightarrow>
          lax_float ?rt' v = lax_float no_lax v \<and> lax_int ?rt' v = lax_int no_lax v \<and>
          lax_datetime ?rt' v = lax_datetime no_lax v) \<and> str_errors ?rt' = str_errors no_lax"
    by (simp add: no_lax_def)
  have s: "CustomerRecord \<in> snd ` set SCHEMAS" by (simp add: SCHEMAS_def)
  have a: "map_of ?d ''created_at'' = None" by simp
  have v: "validate_model no_lax CustomerRecord ?d = Inr ?x" by code_simp
  have run: "validate no_lax \<lparr>mode = ''filter''\<rparr> customers_nan_date ''customers''
               = Inr (customers_null_date, [])"
    by code_simp
  note T = null_coercion [of "iterrows customers_nan_date" ?schema' ?schema "''filter''"
      "str_errors no_lax" "[]" "[]" ?rt' no_lax "\<lparr>mode = ''filter''\<rparr>" customers_nan_date
      "''customers''" ?d "''created_at''"]
  from T h1 have c1: "validate_rows ''filter'' (str_errors no_lax) ?schema'
                        (iterrows customers_nan_date) [] []
                      = validate_rows ''filter'' (str_errors no_lax) ?schema
                          (iterrows customers_nan_date) [] []"
    by blast
  from T h2 have c2: "validate ?rt' \<lparr>mode = ''filter''\<rparr> customers_nan_date ''customers''
                      = validate no_lax \<lparr>mode = ''filter''\<rparr> customers_nan_date ''customers''"
    by blast
  from T s a v have c3: "validate_model no_lax CustomerRecord (?d @ [(''created_at'', PNone)]) = Inr ?x"
    by blast
  from c1 c2 c3 run show ?thesis by blast
qed

subsection \<open>Metadata columns\<close>


lemma validate_rows_flag_rows:
  assumes "validate_rows ''flag'' render schema rows acc errs = Inr (vr, er)"
  shows "\<exists>new. vr = acc @ new \<and>
           list_all2 (\<lambda>row out.
               case schema (row_dict row) of
                 Inr d \<Rightarrow> out = dict_set (dict_update row d) ''_is_valid'' (PBool True)
               | Inl e \<Rightarrow> out = dict_set (dict_set row ''_is_valid'' (PBool False))
                                   ''_validation_errors'' (PStr (render e)))
             (map snd rows) new"
  using assms
proof (induction rows arbitrary: acc errs)
  case Nil
  then show ?case by simp
next
  case (Cons p rows)
  obtain idx row where p: "p = (idx, row)" by (cases p)
  show ?case
  proof (cases "schema (row_dict row)")
    case (Inl e)
    let ?out = "dict_set (dict_set row ''_is_valid'' (PBool False)) ''_validation_errors'' (PStr (render e))"
    from Inl Cons.prems p
    have "validate_rows ''flag'' render schema rows (acc @ [?out])
            (errs @ [\<lparr>row_index = idx, errors = e, data = row\<rparr>]) = Inr (vr, er)"
      by simp
    from Cons.IH [OF this] obtain new where
      "vr = (acc @ [?out]) @ new"
      "list_all2 (\<lambda>row out.
               case schema (row_dict row) of
                 Inr d \<Rightarrow> out = dict_set (dict_update row d) ''_is_valid'' (PBool True)
               | Inl e \<Rightarrow> out = dict_set (dict_set row ''_is_valid'' (PBool False))
                                   ''_validation_errors'' (PStr (render e)))
             (map snd rows) new"
      by blast
    then show ?thesis using Inl p by (intro exI [of _ "?out # new"]) simp
  next
    case (Inr d)
    let ?out = "dict_set (dict_update row d) ''_is_valid'' (PBool True)"
    from Inr Cons.prems p
    have "validate_rows ''flag'' render schema rows (acc @ [?out]) errs = Inr (vr, er)"
      by simp
    from Cons.IH [OF this] obtain new where
      "vr = (acc @ [?out]) @ new"
      "list_all2 (\<lambda>row out.
               case schema (row_dict row) of
                 Inr d \<Rightarrow> out = dict_set (dict_update row d) ''_is_valid'' (PBool True)
               | Inl e \<Rightarrow> out = dict_set (dict_set row ''_is_valid'' (PBool False))
                                   ''_validation_errors'' (PStr (render e)))
             (map snd rows) new"
      by blast
    then show ?thesis using Inr p by (intro exI [of _ "?out # new"]) simp
  qed
qed








subsection \<open>Row counts\<close>

text \<open>
  C1. For every dataset and every registered schema, \<open>validate\<close> in filter mode returns
  accepted rows and errors whose counts add up to the number of input rows, and in flag
  mode returns as many accepted rows as there are input rows: every input row is in the
  output, in input order, marked valid or invalid as the schema judged it.
\<close>

theorem row_count_conservation:
  assumes "map_of SCHEMAS schema_name = Some schema"
  shows "(\<exists>accepted errs.
            validate rt \<lparr>mode = ''filter''\<rparr> df schema_name = Inr (accepted, errs) \<and>
            df_len accepted + length errs = df_len df) \<and>
         (\<exists>accepted errs.
            validate rt \<lparr>mode = ''flag''\<rparr> df schema_name = Inr (accepted, errs) \<and>
            df_len accepted = df_len df \<and>
            list_all2 (\<lambda>row out. map_of out ''_is_valid'' =
                                   Some (PBool (\<not> isl (validate_model rt schema (row_dict row)))))
              (map snd (iterrows df)) (map snd (iterrows accepted)))"
proof -
  note s = assms
  obtain vr er where
    f: "validate_rows ''filter'' (str_errors rt) (validate_model rt schema) (iterrows df) [] []
          = Inr (vr, er)"
    and fc: "length vr + length er = length (iterrows df)"
    using validate_rows_filter_count
      [of "str_errors rt" "validate_model rt schema" "iterrows df" "[]" "[]"]
    by auto
  obtain vr' er' where
    g: "validate_rows ''flag'' (str_errors rt) (validate_model rt schema) (iterrows df) [] []
          = Inr (vr', er')"
    and gc: "length vr' = length (iterrows df)"
    using validate_rows_flag_count
      [of "str_errors rt" "validate_model rt schema" "iterrows df" "[]" "[]"]
    by auto
  have filt: "validate rt \<lparr>mode = ''filter''\<rparr> df schema_name = Inr (DataFrame vr, er)"
    using s f by (simp add: validate_def)
  have flag: "validate rt \<lparr>mode = ''flag''\<rparr> df schema_name = Inr (DataFrame vr', er')"
    using s g by (simp add: validate_def)
  from validate_rows_flag_rows [OF g]
  have rows: "list_all2 (\<lambda>row out.
               case validate_model rt schema (row_dict row) of
                 Inr d \<Rightarrow> out = dict_set (dict_update row d) ''_is_valid'' (PBool True)
               | Inl e \<Rightarrow> out = dict_set (dict_set row ''_is_valid'' (PBool False))
                                   ''_validation_errors'' (PStr (str_errors rt e)))
             (map snd (iterrows df)) vr'"
    by simp
  have marks: "list_all2 (\<lambda>row out. map_of out ''_is_valid'' =
                                   Some (PBool (\<not> isl (validate_model rt schema (row_dict row)))))
              (map snd (iterrows df)) (map snd (iterrows (DataFrame vr')))"
    using rows
  proof (rule list_all2_DataFrame)
    fix row r out
    assume p: "case validate_model rt schema (row_dict row) of
                 Inr d \<Rightarrow> r = dict_set (dict_update row d) ''_is_valid'' (PBool True)
               | Inl e \<Rightarrow> r = dict_set (dict_set row ''_is_valid'' (PBool False))
                                   ''_validation_errors'' (PStr (str_errors rt e))"
      and same: "\<forall>k \<in> fst ` set r. map_of out k = map_of r k"
    from p have k: "''_is_valid'' \<in> fst ` set r"
      by (cases "validate_model rt schema (row_dict row)") (simp_all add: keys_dict_set)
    from p have "map_of r ''_is_valid'' =
                   Some (PBool (\<not> isl (validate_model rt schema (row_dict row))))"
      by (cases "validate_model rt schema (row_dict row)") (simp_all add: map_of_dict_set)
    with same k show "map_of out ''_is_valid'' =
                   Some (PBool (\<not> isl (validate_model rt schema (row_dict row))))"
      by (metis)
  qed
  show ?thesis
    using filt flag fc gc marks by (simp add: df_len_DataFrame length_iterrows)
qed

theorem row_count_conservation_witness:
  "(\<exists>accepted errs.
      validate no_lax \<lparr>mode = ''filter''\<rparr> customers_mixed ''customers'' = Inr (accepted, errs) \<and>
      df_len accepted + length errs = 3) \<and>
   (\<exists>accepted errs.
      validate no_lax \<lparr>mode = ''flag''\<rparr> customers_mixed ''customers'' = Inr (accepted, errs) \<and>
      df_len accepted = 3 \<and>
      list_all2 (\<lambda>row out. map_of out ''_is_valid'' =
                             Some (PBool (\<not> isl (validate_model no_lax CustomerRecord (row_dict row)))))
        (map snd (iterrows customers_mixed)) (map snd (iterrows accepted)))"
proof -
  have m: "map_of SCHEMAS ''customers'' = Some CustomerRecord" by (simp add: SCHEMAS_def)
  have l: "df_len customers_mixed = 3" by (simp add: df_len_def customers_mixed_def)
  show ?thesis using row_count_conservation [OF m, of no_lax customers_mixed] l by simp
qed

subsection \<open>Validating accepted output again\<close>

text \<open>The two normalisers are idempotent on their own.\<close>

lemma of_char_lower_char:
  "(of_char (lower_char c) :: nat) =
     (if 65 \<le> (of_char c :: nat) \<and> (of_char c :: nat) \<le> 90 then of_char c + 32 else of_char c)"
  by (simp add: lower_char_def Let_def)

lemma char_eq_nat: "c = c' \<longleftrightarrow> (of_char c :: nat) = of_char c'"
  by simp

lemma lower_char_idem: "lower_char (lower_char c) = lower_char c"
  unfolding char_eq_nat [of "lower_char (lower_char c)"] of_char_lower_char by auto

lemma lowercase_email_idem: "lowercase_email (lowercase_email s) = lowercase_email s"
  by (simp add: lowercase_email_def lower_char_idem)

lemma round_half_even_of_int: "round_half_even (of_int n) = n"
  by (simp add: round_half_even_def)

lemma round_decimal_idem: "round_decimal (round_decimal x) = round_decimal x"
  by (simp add: round_decimal_def round_half_even_of_int)

text \<open>
  C8 does not hold of the code: \<open>ProductRecord\<close> checks \<open>price\<close> against \<open>gt=0\<close> before
  the field validator rounds it. A product row priced 0.004 passes the check, is rounded to
  0.0 and accepted with a price that breaks the declared constraint; validating the accepted
  output again rejects that row, so the second accepted output is empty in filter mode and
  the call raises in strict mode.
\<close>

theorem rounded_price_fails_revalidation:
  "violates (Gt 0) (PFloat (4 / 1000)) = None \<and>
   round_decimal (4 / 1000) = 0 \<and>
   violates (Gt 0) (PFloat (round_decimal (4 / 1000))) = Some ''greater_than'' \<and>
   validate no_lax \<lparr>mode = ''filter''\<rparr> products_tiny_price ''products''
     = Inr (products_tiny_rounded, []) \<and>
   df_values products_tiny_rounded
     = [[PStr ''P001'', PStr ''Pen'', PStr ''Office'', PFloat 0, PFloat (1 / 2)]] \<and>
   validate no_lax \<lparr>mode = ''filter''\<rparr> products_tiny_rounded ''products''
     = Inr (DataFrame [],
            [\<lparr>row_index = 0,
              errors = [VErr ''greater_than'' ''price'' (InputValue (PFloat 0))],
              data = [(''product_id'', PStr ''P001''), (''product_name'', PStr ''Pen''),
                      (''category'', PStr ''Office''), (''price'', PFloat 0),
                      (''cost'', PFloat (1 / 2))]\<rparr>]) \<and>
   df_len (DataFrame []) = 0 \<and>
   validate no_lax \<lparr>mode = ''strict''\<rparr> products_tiny_rounded ''products''
     = Inl (ValidationFailed [VErr ''greater_than'' ''price'' (InputValue (PFloat 0))])"
proof -
  have r: "round_decimal (4 / 1000) = 0"
    by code_simp
  have a: "validate no_lax \<lparr>mode = ''filter''\<rparr> products_tiny_price ''products''
             = Inr (products_tiny_rounded, [])"
    by code_simp
  have b: "validate no_lax \<lparr>mode = ''filter''\<rparr> products_tiny_rounded ''products''
             = Inr (DataFrame [],
            [\<lparr>row_index = 0,
              errors = [VErr ''greater_than'' ''price'' (InputValue (PFloat 0))],
              data = [(''product_id'', PStr ''P001''), (''product_name'', PStr ''Pen''),
                      (''category'', PStr ''Office''), (''price'', PFloat 0),
                      (''cost'', PFloat (1 / 2))]\<rparr>])"
    by code_simp
  have c: "validate no_lax \<lparr>mode = ''strict''\<rparr> products_tiny_rounded ''products''
     = Inl (ValidationFailed [VErr ''greater_than'' ''price'' (InputValue (PFloat 0))])"
    by code_simp
  have d: "df_values products_tiny_rounded
     = [[PStr ''P001'', PStr ''Pen'', PStr ''Office'', PFloat 0, PFloat (1 / 2)]]"
    by (simp add: products_tiny_rounded_def)
  have v1: "violates (Gt 0) (PFloat (4 / 1000)) = None" by code_simp
  have v2: "violates (Gt 0) (PFloat (round_decimal (4 / 1000))) = Some ''greater_than''"
    by code_simp
  have e: "df_len (DataFrame []) = 0" by (rule df_len_DataFrame [of "[]", simplified])
  show ?thesis by (intro conjI) (rule v1 r v2 a d b e c)+
qed

section \<open>Properties of the loader\<close>

lemma send_all_fail_at:
  "send_all wh w pre = (None, w1) \<Longrightarrow> execute wh (db w1) s = Inl e \<Longrightarrow>
   send_all wh w (pre @ s # post) = (Some e, w1\<lparr>sent := sent w1 @ [s]\<rparr>)"
proof (induction pre arbitrary: w)
  case Nil
  then show ?case by (simp add: send_def)
next
  case (Cons a pre)
  then show ?case by (auto split: prod.splits option.splits)
qed

lemma send_all_sent:
  "send_all wh w ss = (None, w') \<Longrightarrow> sent w' = sent w @ ss"
proof (induction ss arbitrary: w)
  case Nil
  then show ?case by simp
next
  case (Cons a ss)
  then show ?case by (auto simp: send_def split: prod.splits option.splits sum.splits)
qed


lemma chunks_simps_pos:
  "0 < n \<Longrightarrow> xs \<noteq> [] \<Longrightarrow> chunks n xs = take n xs # chunks n (drop n xs)"
  by (subst chunks.simps) simp

lemma chunks_Nil: "chunks n [] = []"
  by (subst chunks.simps) simp

lemma upsert_stmts_rows:
  "upsert_stmts df table_name schema key_columns update_columns =
     map (\<lambda>cells. TextStmt (upsert_sql schema table_name (df_columns df) key_columns
                               (case update_columns of
                                  None \<Rightarrow> filter (\<lambda>c. c \<notin> set key_columns) (df_columns df)
                                | Some cs \<Rightarrow> cs))
                             (to_dict df cells))
         (df_values df)"
proof -
  have "map (\<lambda>(idx, row). f row) (zip [0..<length xs] (map g xs)) = map (\<lambda>x. f (g x)) xs"
    for f :: "pydict \<Rightarrow> stmt" and g :: "pyval list \<Rightarrow> pydict" and xs
    by (induction xs rule: rev_induct) auto
  then show ?thesis by (simp add: upsert_stmts_def iterrows_def Let_def)
qed

lemma send_sent: "sent (snd (send wh w s)) = sent w @ [s]"
  by (simp add: send_def split: sum.splits)

lemma send_ok: "send wh w s = (None, w') \<Longrightarrow> sent w' = sent w @ [s]"
  by (auto simp: send_def split: sum.splits)

lemma send_failed_db: "execute wh (db w) s = Inl e \<Longrightarrow> send wh w s = (Some e, w\<lparr>sent := sent w @ [s]\<rparr>)"
  by (simp add: send_def)


text \<open>
  C5, as stated, fails: a load whose first batch fails and a load whose second batch fails
  end in the same failure, which therefore carries neither a batch index nor a row range.
\<close>

theorem load_failure_counterexample:
  "fst (load table_store one_row_world names_null_first ''t'' ''raw'' Append 1) =
     Inl (LoadError ''Failed to load data: not-null violation'') \<and>
   fst (load table_store one_row_world names_null_second ''t'' ''raw'' Append 1) =
     Inl (LoadError ''Failed to load data: not-null violation'') \<and>
   sent (snd (load table_store one_row_world names_null_first ''t'' ''raw'' Append 1)) =
     [PrepareTable ''raw'' ''t'' Append [''name''],
      InsertRows ''raw'' ''t'' [''name''] [[PNone]]] \<and>
   sent (snd (load table_store one_row_world names_null_second ''t'' ''raw'' Append 1)) =
     [PrepareTable ''raw'' ''t'' Append [''name''],
      InsertRows ''raw'' ''t'' [''name''] [[PStr ''a'']],
      InsertRows ''raw'' ''t'' [''name''] [[PNone]]]"
  by (simp add: load_def to_sql_def insert_stmts_def chunks_simps_pos chunks_Nil send_def
      table_store_def one_row_world_def names_null_first_def names_null_second_def df_empty_def)

text \<open>
  C5, amended. For every load call in which some batch fails, the whole call aborts at the
  first failing batch: the batches after it are not sent, and the failure is a \<open>LoadError\<close>
  whose message is \<open>Failed to load data: \<close> followed by the text of the warehouse's error.
  It carries no batch index and no row range.
\<close>

theorem load_aborts_on_failed_batch:
  assumes "\<not> df_empty df" and "0 < chunk_size"
    and "send wh w (PrepareTable schema table_name if_exists (df_columns df)) = (None, w0)"
    and "i < length (insert_stmts df table_name schema chunk_size)"
    and "send_all wh w0 (take i (insert_stmts df table_name schema chunk_size)) = (None, w1)"
    and "execute wh (db w1) (insert_stmts df table_name schema chunk_size ! i) = Inl e"
  shows "fst (load wh w df table_name schema if_exists chunk_size) =
           Inl (LoadError (''Failed to load data: '' @ e)) \<and>
         sent (snd (load wh w df table_name schema if_exists chunk_size)) =
           sent w @ PrepareTable schema table_name if_exists (df_columns df) #
           take (Suc i) (insert_stmts df table_name schema chunk_size)"
proof -
  let ?ss = "insert_stmts df table_name schema chunk_size"
  have split: "?ss = take i ?ss @ ?ss ! i # drop (Suc i) ?ss"
    using assms(4) by (simp add: id_take_nth_drop)
  have "send_all wh w0 (take i ?ss @ ?ss ! i # drop (Suc i) ?ss)
          = (Some e, w1\<lparr>sent := sent w1 @ [?ss ! i]\<rparr>)"
    using assms(5,6) by (rule send_all_fail_at)
  with split have run: "send_all wh w0 ?ss = (Some e, w1\<lparr>sent := sent w1 @ [?ss ! i]\<rparr>)"
    by simp
  have s1: "sent w1 = sent w0 @ take i ?ss" using assms(5) by (rule send_all_sent)
  have s0: "sent w0 = sent w @ [PrepareTable schema table_name if_exists (df_columns df)]"
    using assms(3) by (auto simp: send_def split: sum.splits)
  show ?thesis
    using assms(1,2,3,4) run s0 s1
    by (simp add: load_def to_sql_def take_Suc_conv_app_nth)
qed

theorem load_aborts_on_failed_batch_witness:
  "fst (load table_store one_row_world names_null_second ''t'' ''raw'' Append 1) =
     Inl (LoadError (''Failed to load data: '' @ ''not-null violation'')) \<and>
   sent (snd (load table_store one_row_world names_null_second ''t'' ''raw'' Append 1)) =
     sent one_row_world @ PrepareTable ''raw'' ''t'' Append (df_columns names_null_second) #
     take (Suc 1) (insert_stmts names_null_second ''t'' ''raw'' 1)"
proof -
  let ?w0 = "\<lparr>db = [[PStr ''z'']], sent = [PrepareTable ''raw'' ''t'' Append [''name'']]\<rparr>"
  let ?w1 = "\<lparr>db = [[PStr ''z''], [PStr ''a'']],
              sent = [PrepareTable ''raw'' ''t'' Append [''name''],
                      InsertRows ''raw'' ''t'' [''name''] [[PStr ''a'']]]\<rparr>"
  have ss: "insert_stmts names_null_second ''t'' ''raw'' 1 =
              [InsertRows ''raw'' ''t'' [''name''] [[PStr ''a'']],
               InsertRows ''raw'' ''t'' [''name''] [[PNone]],
               InsertRows ''raw'' ''t'' [''name''] [[PStr ''c'']]]"
    by (simp add: insert_stmts_def chunks_simps_pos chunks_Nil names_null_second_def)
  have a1: "\<not> df_empty names_null_second" by (simp add: df_empty_def names_null_second_def)
  have a2: "0 < (1::nat)" by simp
  have a3: "send table_store one_row_world
              (PrepareTable ''raw'' ''t'' Append (df_columns names_null_second)) = (None, ?w0)"
    by (simp add: send_def table_store_def one_row_world_def names_null_second_def)
  have a4: "1 < length (insert_stmts names_null_second ''t'' ''raw'' 1)" unfolding ss by simp
  have a5: "send_all table_store ?w0 (take 1 (insert_stmts names_null_second ''t'' ''raw'' 1))
              = (None, ?w1)"
    unfolding ss by (simp add: send_def table_store_def)
  have a6: "execute table_store (db ?w1) (insert_stmts names_null_second ''t'' ''raw'' 1 ! 1)
              = Inl ''not-null violation''"
    unfolding ss by (simp add: table_store_def)
  show ?thesis using load_aborts_on_failed_batch [OF a1 a2 a3 a4 a5 a6] by simp
qed

text \<open>
  C9. For every dataset without rows, \<open>load\<close> and \<open>upsert\<close> each return 0 and leave the
  world as it is: no statement is sent and the warehouse is unchanged.
\<close>

theorem empty_dataset_noop:
  assumes "df_values df = []"
  shows "load wh w df table_name schema if_exists chunk_size = (Inr 0, w) \<and>
         upsert wh w df table_name schema key_columns update_columns = (Inr 0, w)"
  using assms by (simp add: load_def upsert_def df_empty_def)

theorem empty_dataset_noop_witness:
  "load table_store one_row_world no_rows ''t'' ''raw'' Replace 10000 = (Inr 0, one_row_world) \<and>
   upsert table_store one_row_world no_rows ''t'' ''raw'' [''name''] None = (Inr 0, one_row_world)"
proof -
  have e: "df_values no_rows = []" by (simp add: no_rows_def)
  show ?thesis by (rule empty_dataset_noop [OF e])
qed

subsection \<open>Upserts\<close>

text \<open>
  C3. For every non-empty dataset, the statements of one \<open>upsert\<close> call are exactly one
  statement per row of the dataset, in row order, each carrying that row's cells as
  parameters, and the call sends them inside one transaction. When the transaction begins
  and every statement and the commit succeed, the call returns the number of rows, and the
  warehouse has received the begin, every row's statement and the commit. When the statement
  of row \<open>i\<close> fails after the rows before it succeeded, the whole call fails with the
  warehouse's error, the statements of the later rows are not sent, no commit is sent, and a
  rollback is sent in its place; when the warehouse's rollback restores the state the call
  began with, the warehouse is left in the state it had before the call.
\<close>

theorem upsert_all_or_nothing:
  fixes df table_name schema key_columns update_columns
  defines "stmt \<equiv> \<lambda>cells. TextStmt (upsert_sql schema table_name (df_columns df) key_columns
                               (case update_columns of
                                  None \<Rightarrow> filter (\<lambda>c. c \<notin> set key_columns) (df_columns df)
                                | Some cs \<Rightarrow> cs))
                             (to_dict df cells)"
  assumes "\<not> df_empty df"
  shows "upsert_stmts df table_name schema key_columns update_columns = map stmt (df_values df) \<and>
         (\<forall>w0 w1 w2.
            send wh w Begin = (None, w0) \<and>
            send_all wh w0 (map stmt (df_values df)) = (None, w1) \<and>
            send wh w1 Commit = (None, w2) \<longrightarrow>
            upsert wh w df table_name schema key_columns update_columns = (Inr (df_len df), w2) \<and>
            sent w2 = sent w @ Begin # map stmt (df_values df) @ [Commit]) \<and>
         (\<forall>i w0 w1 e.
            i < df_len df \<and> send wh w Begin = (None, w0) \<and>
            send_all wh w0 (map stmt (take i (df_values df))) = (None, w1) \<and>
            execute wh (db w1) (stmt (df_values df ! i)) = Inl e \<longrightarrow>
            fst (upsert wh w df table_name schema key_columns update_columns)
              = Inl (WarehouseError e) \<and>
            sent (snd (upsert wh w df table_name schema key_columns update_columns))
              = sent w @ Begin # map stmt (take (Suc i) (df_values df)) @ [Rollback] \<and>
            (execute wh (db w1) Rollback = Inr (db w) \<longrightarrow>
               db (snd (upsert wh w df table_name schema key_columns update_columns)) = db w))"
proof (intro conjI allI impI)
  show rows: "upsert_stmts df table_name schema key_columns update_columns = map stmt (df_values df)"
    unfolding stmt_def by (rule upsert_stmts_rows)
  {
    fix w0 w1 w2
    assume a: "send wh w Begin = (None, w0) \<and>
            send_all wh w0 (map stmt (df_values df)) = (None, w1) \<and>
            send wh w1 Commit = (None, w2)"
    then show "upsert wh w df table_name schema key_columns update_columns = (Inr (df_len df), w2)"
      using assms(2) by (simp add: upsert_def transaction_def rows)
    from a have "sent w0 = sent w @ [Begin]" "sent w1 = sent w0 @ map stmt (df_values df)"
      "sent w2 = sent w1 @ [Commit]"
      by (auto dest: send_ok send_all_sent)
    then show "sent w2 = sent w @ Begin # map stmt (df_values df) @ [Commit]" by simp
  }
  {
    fix i w0 w1 e
    assume a: "i < df_len df \<and> send wh w Begin = (None, w0) \<and>
            send_all wh w0 (map stmt (take i (df_values df))) = (None, w1) \<and>
            execute wh (db w1) (stmt (df_values df ! i)) = Inl e"
    let ?ss = "map stmt (df_values df)"
    let ?wf = "w1\<lparr>sent := sent w1 @ [?ss ! i]\<rparr>"
    from a have i: "i < length ?ss" by (simp add: df_len_def)
    then have split: "?ss = take i ?ss @ ?ss ! i # drop (Suc i) ?ss"
      by (simp only: id_take_nth_drop [symmetric])
    from a i have pre: "send_all wh w0 (take i ?ss) = (None, w1)"
      and bad: "execute wh (db w1) (?ss ! i) = Inl e"
      by (simp_all add: take_map)
    have "send_all wh w0 (take i ?ss @ ?ss ! i # drop (Suc i) ?ss) = (Some e, ?wf)"
      using pre bad by (rule send_all_fail_at)
    with split have run: "send_all wh w0 ?ss = (Some e, ?wf)" by simp
    have up: "upsert wh w df table_name schema key_columns update_columns
                = (Inl (WarehouseError e), snd (send wh ?wf Rollback))"
      using assms(2) a run by (simp add: upsert_def transaction_def rows)
    show "fst (upsert wh w df table_name schema key_columns update_columns) = Inl (WarehouseError e)"
      by (simp add: up)
    from a have s0: "sent w0 = sent w @ [Begin]" by (auto dest: send_ok)
    from pre have s1: "sent w1 = sent w0 @ take i ?ss" by (rule send_all_sent)
    show "sent (snd (upsert wh w df table_name schema key_columns update_columns))
              = sent w @ Begin # map stmt (take (Suc i) (df_values df)) @ [Rollback]"
      using i by (simp add: up send_sent s0 s1 take_map take_Suc_conv_app_nth)
    {
      assume "execute wh (db w1) Rollback = Inr (db w)"
      then show "db (snd (upsert wh w df table_name schema key_columns update_columns)) = db w"
        by (simp add: up send_def)
    }
  }
qed

theorem upsert_all_or_nothing_witness:
  "fst (upsert tx_store tx_world people_null_second ''t'' ''raw'' [''id''] None)
     = Inl (WarehouseError ''not-null violation'') \<and>
   sent (snd (upsert tx_store tx_world people_null_second ''t'' ''raw'' [''id''] None))
     = Begin # take 2 (upsert_stmts people_null_second ''t'' ''raw'' [''id''] None) @ [Rollback] \<and>
   db (snd (upsert tx_store tx_world people_null_second ''t'' ''raw'' [''id''] None)) = db tx_world \<and>
   upsert tx_store tx_world people_two ''t'' ''raw'' [''id''] None
     = (Inr 2,
        \<lparr>db = Up [[PInt 1, PStr ''z''], [PInt 2, PStr ''a''], [PInt 3, PStr ''b'']]
                 [[PInt 1, PStr ''z''], [PInt 2, PStr ''a''], [PInt 3, PStr ''b'']],
         sent = Begin # upsert_stmts people_two ''t'' ''raw'' [''id''] None @ [Commit]\<rparr>)"
proof -
  let ?sql = "upsert_sql ''raw'' ''t'' [''id'', ''name''] [''id''] [''name'']"
  let ?t0 = "[[PInt 1, PStr ''z'']]"
  let ?w0 = "\<lparr>db = Up ?t0 ?t0, sent = [Begin]\<rparr>"
  have cols: "df_columns people_null_second = [''id'', ''name'']"
    "df_values people_null_second = [[PInt 2, PStr ''a''], [PInt 3, PNone], [PInt 4, PStr ''c'']]"
    "df_columns people_two = [''id'', ''name'']"
    "df_values people_two = [[PInt 2, PStr ''a''], [PInt 3, PStr ''b'']]"
    by (simp_all add: people_null_second_def people_two_def)
  have td: "to_dict people_null_second [PInt 2, PStr ''a''] = [(''id'', PInt 2), (''name'', PStr ''a'')]"
    "to_dict people_null_second [PInt 3, PNone] = [(''id'', PInt 3), (''name'', PNone)]"
    "to_dict people_two [PInt 2, PStr ''a''] = [(''id'', PInt 2), (''name'', PStr ''a'')]"
    "to_dict people_two [PInt 3, PStr ''b''] = [(''id'', PInt 3), (''name'', PStr ''b'')]"
    by (simp_all add: to_dict_def cols)
  have n: "\<not> df_empty people_null_second" and n2: "\<not> df_empty people_two"
    by (simp_all add: df_empty_def cols)
  have len: "df_len people_null_second = 3" "df_len people_two = 2"
    by (simp_all add: df_len_def cols)
  have b: "send tx_store tx_world Begin = (None, ?w0)"
    by (simp add: send_def tx_store_def tx_world_def)
  note T = upsert_all_or_nothing [OF n, of "''t''" "''raw''" "[''id'']" None tx_store tx_world]
  note T2 = upsert_all_or_nothing [OF n2, of "''t''" "''raw''" "[''id'']" None tx_store tx_world]
  let ?w1 = "\<lparr>db = Up [[PInt 1, PStr ''z''], [PInt 2, PStr ''a'']] ?t0,
              sent = [Begin, TextStmt ?sql [(''id'', PInt 2), (''name'', PStr ''a'')]]\<rparr>"
  from T have
    "1 < df_len people_null_second \<and> send tx_store tx_world Begin = (None, ?w0) \<and>
     send_all tx_store ?w0
       (map (\<lambda>cells. TextStmt (upsert_sql ''raw'' ''t'' (df_columns people_null_second) [''id'']
                (case None of None \<Rightarrow> filter (\<lambda>c. c \<notin> set [''id'']) (df_columns people_null_second)
                 | Some cs \<Rightarrow> cs)) (to_dict people_null_second cells))
            (take 1 (df_values people_null_second))) = (None, ?w1) \<and>
     execute tx_store (db ?w1)
       (TextStmt (upsert_sql ''raw'' ''t'' (df_columns people_null_second) [''id'']
                (case None of None \<Rightarrow> filter (\<lambda>c. c \<notin> set [''id'']) (df_columns people_null_second)
                 | Some cs \<Rightarrow> cs)) (to_dict people_null_second (df_values people_null_second ! 1)))
       = Inl ''not-null violation'' \<longrightarrow>
     fst (upsert tx_store tx_world people_null_second ''t'' ''raw'' [''id''] None)
       = Inl (WarehouseError ''not-null violation'') \<and>
     sent (snd (upsert tx_store tx_world people_null_second ''t'' ''raw'' [''id''] None))
       = sent tx_world @ Begin #
         map (\<lambda>cells. TextStmt (upsert_sql ''raw'' ''t'' (df_columns people_null_second) [''id'']
                (case None of None \<Rightarrow> filter (\<lambda>c. c \<notin> set [''id'']) (df_columns people_null_second)
                 | Some cs \<Rightarrow> cs)) (to_dict people_null_second cells))
             (take (Suc 1) (df_values people_null_second)) @ [Rollback] \<and>
     (execute tx_store (db ?w1) Rollback = Inr (db tx_world) \<longrightarrow>
        db (snd (upsert tx_store tx_world people_null_second ''t'' ''raw'' [''id''] None)) = db tx_world)"
    by blast
  moreover have "send_all tx_store ?w0
       (map (\<lambda>cells. TextStmt (upsert_sql ''raw'' ''t'' (df_columns people_null_second) [''id'']
                (case None of None \<Rightarrow> filter (\<lambda>c. c \<notin> set [''id'']) (df_columns people_null_second)
                 | Some cs \<Rightarrow> cs)) (to_dict people_null_second cells))
            (take 1 (df_values people_null_second))) = (None, ?w1)"
    by (simp add: cols td send_def tx_store_def)
  moreover have "execute tx_store (db ?w1)
       (TextStmt (upsert_sql ''raw'' ''t'' (df_columns people_null_second) [''id'']
                (case None of None \<Rightarrow> filter (\<lambda>c. c \<notin> set [''id'']) (df_columns people_null_second)
                 | Some cs \<Rightarrow> cs)) (to_dict people_null_second (df_values people_null_second ! 1)))
       = Inl ''not-null violation''"
    by (simp add: cols td tx_store_def)
  moreover have "execute tx_store (db ?w1) Rollback = Inr (db tx_world)"
    by (simp add: tx_store_def tx_world_def)
  moreover have "take 2 (upsert_stmts people_null_second ''t'' ''raw'' [''id''] None) =
         map (\<lambda>cells. TextStmt (upsert_sql ''raw'' ''t'' (df_columns people_null_second) [''id'']
                (case None of None \<Rightarrow> filter (\<lambda>c. c \<notin> set [''id'']) (df_columns people_null_second)
                 | Some cs \<Rightarrow> cs)) (to_dict people_null_second cells))
             (take (Suc 1) (df_values people_null_second))"
    unfolding upsert_stmts_rows by (simp add: take_map numeral_2_eq_2)
  ultimately have first:
    "fst (upsert tx_store tx_world people_null_second ''t'' ''raw'' [''id''] None)
       = Inl (WarehouseError ''not-null violation'') \<and>
     sent (snd (upsert tx_store tx_world people_null_second ''t'' ''raw'' [''id''] None))
       = Begin # take 2 (upsert_stmts people_null_second ''t'' ''raw'' [''id''] None) @ [Rollback] \<and>
     db (snd (upsert tx_store tx_world people_null_second ''t'' ''raw'' [''id''] None)) = db tx_world"
    using b len by (simp add: tx_world_def)
  let ?t2 = "[[PInt 1, PStr ''z''], [PInt 2, PStr ''a''], [PInt 3, PStr ''b'']]"
  let ?ss2 = "map (\<lambda>cells. TextStmt (upsert_sql ''raw'' ''t'' (df_columns people_two) [''id'']
                (case None of None \<Rightarrow> filter (\<lambda>c. c \<notin> set [''id'']) (df_columns people_two)
                 | Some cs \<Rightarrow> cs)) (to_dict people_two cells))
             (df_values people_two)"
  let ?v1 = "\<lparr>db = Up ?t2 ?t0, sent = Begin # ?ss2\<rparr>"
  let ?v2 = "\<lparr>db = Up ?t2 ?t2, sent = Begin # ?ss2 @ [Commit]\<rparr>"
  have r1: "send_all tx_store ?w0 ?ss2 = (None, ?v1)"
    by (simp add: cols td send_def tx_store_def)
  have r2: "send tx_store ?v1 Commit = (None, ?v2)"
    by (simp add: send_def tx_store_def)
  from T2 b r1 r2
  have "upsert tx_store tx_world people_two ''t'' ''raw'' [''id''] None = (Inr (df_len people_two), ?v2)"
    by blast
  moreover have "upsert_stmts people_two ''t'' ''raw'' [''id''] None = ?ss2"
    by (rule upsert_stmts_rows)
  ultimately have second: "upsert tx_store tx_world people_two ''t'' ''raw'' [''id''] None
     = (Inr 2, \<lparr>db = Up ?t2 ?t2,
                sent = Begin # upsert_stmts people_two ''t'' ''raw'' [''id''] None @ [Commit]\<rparr>)"
    using len by simp
  from first second show ?thesis by blast
qed




end
